theory Spec2Isabelle
  imports Complex_Main "HOL-Library.Char_ord" "HOL-Library.List_Lexorder"
    "HOL-Library.Product_Lexorder"
begin

section \<open>Values read from the spreadsheets\<close>

text \<open>
  \<^verbatim>\<open>index.py\<close> downloads two Excel sheets into pandas frames and works on their cells.
  A cell is missing (pandas stores the float NaN), a Python \<^verbatim>\<open>str\<close>, or a Python
  \<^verbatim>\<open>int\<close>. Cells of the other non-text types (float, bool, Timestamp) take the same
  branches as \<open>IntCell\<close> in every expression modelled here and are not listed apart.
  Strings are byte lists; only ASCII letters, digits and blanks are interpreted.
\<close>

datatype cell = NA | Str string | IntCell int

datatype py_error = ValueError | TypeError | KeyError | AttributeError | SystemExit

text \<open>
  A Python float. A finite float is represented by the exact decimal value of the literal
  it was read from (rounding to binary64 is not modelled, overflow to infinity is).
\<close>

datatype pyfloat = Finite rat | PosInf | NegInf | NaN

definition notna :: "cell \<Rightarrow> bool" where
  "notna c = (c \<noteq> NA)"

subsection \<open>Text helpers of the Python runtime\<close>

definition is_space :: "char \<Rightarrow> bool" where
  "is_space c = (let n = (of_char c :: nat) in (9 \<le> n \<and> n \<le> 13) \<or> (28 \<le> n \<and> n \<le> 32))"

definition is_digit :: "char \<Rightarrow> bool" where
  "is_digit c = (let n = (of_char c :: nat) in 48 \<le> n \<and> n \<le> 57)"

definition digit_val :: "char \<Rightarrow> nat" where
  "digit_val c = of_char c - 48"

text \<open>The character code of a letter's lower-case form (other characters keep theirs).\<close>

definition lower_code :: "char \<Rightarrow> nat" where
  "lower_code c = (let n = (of_char c :: nat) in if 65 \<le> n \<and> n \<le> 90 then n + 32 else n)"

definition is_word :: "string \<Rightarrow> string \<Rightarrow> bool" where
  "is_word w s = (map lower_code s = map of_char w)"

definition strip :: "string \<Rightarrow> string" where
  "strip s = rev (dropWhile is_space (rev (dropWhile is_space s)))"

text \<open>\<^verbatim>\<open>s.split(sep)\<close> for a one-character separator: one more part than separators.\<close>

fun split_on :: "char \<Rightarrow> string \<Rightarrow> string list" where
  "split_on sep [] = [[]]"
| "split_on sep (c # cs) =
     (if c = sep then [] # split_on sep cs
      else (case split_on sep cs of [] \<Rightarrow> [[c]] | p # ps \<Rightarrow> (c # p) # ps))"

text \<open>\<^verbatim>\<open>s.replace(",", ".")\<close>: every comma becomes a period.\<close>

definition replace_comma :: "string \<Rightarrow> string" where
  "replace_comma s = map (\<lambda>c. if c = CHR '','' then CHR ''.'' else c) s"

fun show_nat :: "nat \<Rightarrow> string" where
  "show_nat n =
     (if n < 10 then [''0123456789'' ! n]
      else show_nat (n div 10) @ [''0123456789'' ! (n mod 10)])"

text \<open>\<^verbatim>\<open>str(v)\<close>, as \<^verbatim>\<open>astype(str)\<close> and an f-string field apply it to a cell.\<close>

definition py_str :: "cell \<Rightarrow> string" where
  "py_str v =
     (case v of
        NA \<Rightarrow> ''nan''
      | Str s \<Rightarrow> s
      | IntCell i \<Rightarrow> (if i < 0 then CHR ''-'' # show_nat (nat (- i)) else show_nat (nat i)))"

subsection \<open>Reading a float from text\<close>

text \<open>
  The grammar of Python's \<^verbatim>\<open>float(str)\<close>: blanks around the text are dropped, then an
  optional sign, then \<^verbatim>\<open>inf\<close>, \<^verbatim>\<open>infinity\<close> or \<^verbatim>\<open>nan\<close> in any letter case, or a
  decimal number \<^verbatim>\<open>[digits][.digits][(e|E)[sign]digits]\<close> with at least one mantissa digit.
  Python allows single underscores between digits; the parser of \<^verbatim>\<open>pd.to_numeric\<close>
  does not, which the flag \<open>us\<close> selects.
\<close>

fun digitpart :: "bool \<Rightarrow> string \<Rightarrow> bool" where
  "digitpart us [] = False"
| "digitpart us [c] = is_digit c"
| "digitpart us (c # d # cs) =
     (is_digit c \<and> (if us \<and> d = CHR ''_'' then digitpart us cs else digitpart us (d # cs)))"

definition digits_value :: "string \<Rightarrow> nat" where
  "digits_value s = foldl (\<lambda>a c. 10 * a + digit_val c) 0 (filter is_digit s)"

definition split_sign :: "string \<Rightarrow> bool \<times> string" where
  "split_sign s =
     (case s of
        [] \<Rightarrow> (False, [])
      | c # cs \<Rightarrow> if c = CHR ''-'' then (True, cs) else if c = CHR ''+'' then (False, cs) else (False, s))"

definition split_first :: "(char \<Rightarrow> bool) \<Rightarrow> string \<Rightarrow> string \<times> string option" where
  "split_first p s =
     (let a = takeWhile (\<lambda>c. \<not> p c) s; r = dropWhile (\<lambda>c. \<not> p c) s
      in (a, if r = [] then None else Some (tl r)))"

definition mantissa_ok :: "bool \<Rightarrow> string \<Rightarrow> string option \<Rightarrow> bool" where
  "mantissa_ok us ip fp =
     (case fp of
        None \<Rightarrow> digitpart us ip
      | Some f \<Rightarrow> (ip = [] \<or> digitpart us ip) \<and> (f = [] \<or> digitpart us f) \<and> (ip \<noteq> [] \<or> f \<noteq> []))"

definition exponent_of :: "bool \<Rightarrow> string option \<Rightarrow> int option" where
  "exponent_of us ex =
     (case ex of
        None \<Rightarrow> Some 0
      | Some t \<Rightarrow>
          (let (neg, ds) = split_sign t
           in if digitpart us ds
              then Some (if neg then - int (digits_value ds) else int (digits_value ds))
              else None))"

definition pow10 :: "int \<Rightarrow> rat" where
  "pow10 k = (if 0 \<le> k then 10 ^ nat k else 1 / 10 ^ nat (- k))"

text \<open>The largest binary64 value is \<open>2^1024 - 2^971\<close>; from half a unit above it a
  decimal rounds to infinity.\<close>

definition overflow_bound :: rat where
  "overflow_bound = 2 ^ 1024 - 2 ^ 970"

definition of_decimal :: "rat \<Rightarrow> pyfloat" where
  "of_decimal q =
     (if overflow_bound \<le> q then PosInf
      else if q \<le> - overflow_bound then NegInf
      else Finite q)"

definition parse_number :: "bool \<Rightarrow> string \<Rightarrow> rat option" where
  "parse_number us s =
     (let (m, ex) = split_first (\<lambda>c. c = CHR ''e'' \<or> c = CHR ''E'') s;
          (ip, fp) = split_first (\<lambda>c. c = CHR ''.'') m
      in if mantissa_ok us ip fp
         then (case exponent_of us ex of
                 None \<Rightarrow> None
               | Some e \<Rightarrow>
                   (let f = (case fp of None \<Rightarrow> [] | Some x \<Rightarrow> x)
                    in Some (of_nat (digits_value (ip @ f))
                             * pow10 (e - int (length (filter is_digit f))))))
         else None)"

definition parse_float :: "bool \<Rightarrow> string \<Rightarrow> pyfloat option" where
  "parse_float us s =
     (let (neg, body) = split_sign (strip s)
      in if is_word ''inf'' body \<or> is_word ''infinity'' body
         then Some (if neg then NegInf else PosInf)
         else if is_word ''nan'' body then Some NaN
         else (case parse_number us body of
                 None \<Rightarrow> None
               | Some q \<Rightarrow> Some (of_decimal (if neg then - q else q))))"

text \<open>\<^verbatim>\<open>float(s)\<close>: \<open>None\<close> stands for the \<^verbatim>\<open>ValueError\<close> it raises.\<close>

definition py_float :: "string \<Rightarrow> pyfloat option" where
  "py_float s = parse_float True s"

section \<open>The occurrence table and the marker loop\<close>

text \<open>
  One row of the occurrence sheet. The five columns the script reads with
  \<^verbatim>\<open>df[...]\<close> exist in every table that reaches the code modelled here (lines 58 to 75
  raise \<^verbatim>\<open>KeyError\<close> otherwise); the category column holds the name of the
  nucleo or is empty. The two columns read with \<^verbatim>\<open>row.get\<close> may be absent from the
  sheet, which is \<open>None\<close>.
\<close>

record occurrence =
  nucleo_de_atuacao :: "string option"
  ocorrencia_cadastro :: cell
  ocorrencia_caixa_uma :: cell
  ocorrencia_ligacao :: cell
  data_cadastro :: cell
  geolocation :: "cell option"
  funcionario_cadastro :: "cell option"

text \<open>The three values the f-string of lines 169 to 173 puts between its fixed labels,
  each as \<^verbatim>\<open>str\<close> renders it.\<close>

record popup =
  nucleo_field :: string
  ocorrencia_field :: string
  funcionario_field :: string

record marker =
  marker_lat :: pyfloat
  marker_lng :: pyfloat
  marker_popup :: popup
  icon_color :: string

record layer =
  layer_name :: string
  layer_markers :: "marker list"

text \<open>\<^verbatim>\<open>row.get(col, default)\<close>: the default is returned only when the row has no such
  column. With the default \<^verbatim>\<open>None\<close> the result is written \<open>NA\<close>: \<^verbatim>\<open>pd.notna\<close> is false
  on both.\<close>

definition row_get :: "cell option \<Rightarrow> cell \<Rightarrow> cell" where
  "row_get v d = (case v of None \<Rightarrow> d | Some c \<Rightarrow> c)"

text \<open>\<^verbatim>\<open>"," in v\<close>: a substring test on a \<^verbatim>\<open>str\<close>, a \<^verbatim>\<open>TypeError\<close> on a value
  that is not iterable.\<close>

definition has_comma :: "cell \<Rightarrow> py_error + bool" where
  "has_comma v = (case v of Str s \<Rightarrow> Inr (CHR '','' \<in> set s) | _ \<Rightarrow> Inl TypeError)"

text \<open>\<^verbatim>\<open>v.split(",")\<close>.\<close>

definition cell_split :: "cell \<Rightarrow> py_error + string list" where
  "cell_split v = (case v of Str s \<Rightarrow> Inr (split_on (CHR '','') s) | _ \<Rightarrow> Inl AttributeError)"

text \<open>
  \<^verbatim>\<open>lat, lng = map(float, parts)\<close>: the unpacking draws the floats one by one. A part
  that is no float, fewer than two parts and more than two parts all end in
  \<^verbatim>\<open>ValueError\<close>.
\<close>

fun unpack2 :: "string list \<Rightarrow> py_error + pyfloat \<times> pyfloat" where
  "unpack2 [a, b] =
     (case py_float a of
        None \<Rightarrow> Inl ValueError
      | Some x \<Rightarrow> (case py_float b of None \<Rightarrow> Inl ValueError | Some y \<Rightarrow> Inr (x, y)))"
| "unpack2 ps = Inl ValueError"

text \<open>
  \<^verbatim>\<open>folium.Marker(location=[lat, lng], ...)\<close> is library code. Its constructor passes
  the location through folium's \<^verbatim>\<open>validate_location\<close>, which raises \<^verbatim>\<open>ValueError\<close>
  when a coordinate is NaN and accepts every other float.
\<close>

definition validate_location :: "pyfloat \<times> pyfloat \<Rightarrow> py_error + pyfloat \<times> pyfloat" where
  "validate_location loc = (if fst loc = NaN \<or> snd loc = NaN then Inl ValueError else Inr loc)"

definition popup_html :: "occurrence \<Rightarrow> popup" where
  "popup_html row =
     \<lparr> nucleo_field = (case nucleo_de_atuacao row of None \<Rightarrow> ''nan'' | Some n \<Rightarrow> n),
       ocorrencia_field = py_str (ocorrencia_cadastro row),
       funcionario_field = py_str (row_get (funcionario_cadastro row) (Str ''N/A'')) \<rparr>"

text \<open>The body of the \<^verbatim>\<open>try\<close> block, lines 168 to 178.\<close>

definition try_marker ::
  "(string \<Rightarrow> string option) \<Rightarrow> string \<Rightarrow> occurrence \<Rightarrow> cell \<Rightarrow> py_error + marker" where
  "try_marker cores_nucleo bairro row g =
     (case cell_split g of
        Inl e \<Rightarrow> Inl e
      | Inr parts \<Rightarrow>
          (case unpack2 parts of
             Inl e \<Rightarrow> Inl e
           | Inr (la, lo) \<Rightarrow>
               (case cores_nucleo bairro of
                  None \<Rightarrow> Inl KeyError
                | Some c \<Rightarrow>
                    (case validate_location (la, lo) of
                       Inl e \<Rightarrow> Inl e
                     | Inr loc \<Rightarrow>
                         Inr \<lparr> marker_lat = fst loc, marker_lng = snd loc,
                               marker_popup = popup_html row, icon_color = c \<rparr>))))"

text \<open>
  One pass of the loop body, lines 166 to 180: \<open>Inr None\<close> is a row that adds nothing
  (the guard is false, or the handler ran \<^verbatim>\<open>continue\<close>), \<open>Inr (Some m)\<close> a marker added
  to the group, \<open>Inl e\<close> an exception that leaves the loop. The handler catches
  \<^verbatim>\<open>ValueError\<close> only. The loop body prints nothing on any path.
\<close>

definition marker_row ::
  "(string \<Rightarrow> string option) \<Rightarrow> string \<Rightarrow> occurrence \<Rightarrow> py_error + marker option" where
  "marker_row cores_nucleo bairro row =
     (let g = row_get (geolocation row) NA
      in if \<not> notna g then Inr None
         else (case has_comma g of
                 Inl e \<Rightarrow> Inl e
               | Inr False \<Rightarrow> Inr None
               | Inr True \<Rightarrow>
                   (case try_marker cores_nucleo bairro row g of
                      Inl ValueError \<Rightarrow> Inr None
                    | Inl e \<Rightarrow> Inl e
                    | Inr m \<Rightarrow> Inr (Some m))))"

fun add_markers ::
  "(string \<Rightarrow> string option) \<Rightarrow> string \<Rightarrow> occurrence list \<Rightarrow> py_error + marker list" where
  "add_markers cores_nucleo bairro [] = Inr []"
| "add_markers cores_nucleo bairro (row # rows) =
     (case marker_row cores_nucleo bairro row of
        Inl e \<Rightarrow> Inl e
      | Inr mo \<Rightarrow>
          (case add_markers cores_nucleo bairro rows of
             Inl e \<Rightarrow> Inl e
           | Inr ms \<Rightarrow> Inr (case mo of None \<Rightarrow> ms | Some m \<Rightarrow> m # ms)))"

subsection \<open>Colours\<close>

definition cores :: "string list" where
  "cores = [''red'', ''blue'', ''green'', ''purple'', ''orange'', ''darkred'', ''cadetblue'',
            ''darkgreen'']"

text \<open>\<^verbatim>\<open>Series.unique()\<close>: the distinct values in the order of their first appearance.\<close>

fun unique_from :: "'a list \<Rightarrow> 'a list \<Rightarrow> 'a list" where
  "unique_from seen [] = []"
| "unique_from seen (x # xs) =
     (if x \<in> set seen then unique_from seen xs else x # unique_from (x # seen) xs)"

definition unique :: "'a list \<Rightarrow> 'a list" where
  "unique xs = unique_from [] xs"

text \<open>The dictionary of line 157, as the list of its items in insertion order.\<close>

definition cores_nucleo_items :: "string list \<Rightarrow> (string \<times> string) list" where
  "cores_nucleo_items nucleos =
     map (\<lambda>(i, n). (n, cores ! (i mod length cores))) (enumerate 0 nucleos)"

definition dict_get :: "('k \<times> 'v) list \<Rightarrow> 'k \<Rightarrow> 'v option" where
  "dict_get items k = map_of (rev items) k"

fun build_layers ::
  "(string \<Rightarrow> string option) \<Rightarrow> occurrence list \<Rightarrow> string list \<Rightarrow> py_error + layer list" where
  "build_layers cn df [] = Inr []"
| "build_layers cn df (bairro # rest) =
     (case add_markers cn bairro (filter (\<lambda>r. nucleo_de_atuacao r = Some bairro) df) of
        Inl e \<Rightarrow> Inl e
      | Inr ms \<Rightarrow>
          (case build_layers cn df rest of
             Inl e \<Rightarrow> Inl e
           | Inr ls \<Rightarrow> Inr (\<lparr> layer_name = bairro, layer_markers = ms \<rparr> # ls)))"

text \<open>\<^verbatim>\<open>df.dropna(subset=[...])\<close> of line 58, and the values of the category column.\<close>

definition dropna_nucleo :: "occurrence list \<Rightarrow> occurrence list" where
  "dropna_nucleo df = filter (\<lambda>r. nucleo_de_atuacao r \<noteq> None) df"

fun somes :: "'a option list \<Rightarrow> 'a list" where
  "somes [] = []"
| "somes (None # xs) = somes xs"
| "somes (Some x # xs) = x # somes xs"

definition nucleos_of :: "occurrence list \<Rightarrow> string list" where
  "nucleos_of df = unique (somes (map nucleo_de_atuacao df))"

text \<open>Lines 155 to 182 on the table left by line 58.\<close>

definition map_layers :: "occurrence list \<Rightarrow> py_error + layer list" where
  "map_layers df =
     (let nucleos = nucleos_of df
      in build_layers (dict_get (cores_nucleo_items nucleos)) df nucleos)"

section \<open>Aggregates\<close>

text \<open>\<^verbatim>\<open>df[col].notna().sum()\<close>, lines 61 to 63.\<close>

definition count_notna :: "(occurrence \<Rightarrow> cell) \<Rightarrow> occurrence list \<Rightarrow> nat" where
  "count_notna col df = length (filter (\<lambda>r. notna (col r)) df)"

text \<open>
  \<^verbatim>\<open>groupby\<close> is called with its defaults \<^verbatim>\<open>sort=True\<close> and \<^verbatim>\<open>dropna=True\<close>: the group
  keys are the distinct non-missing key values in ascending order. Python orders
  \<^verbatim>\<open>str\<close> by code point, which is the lexicographic order of the bytes.
\<close>

definition group_keys :: "'k::linorder option list \<Rightarrow> 'k list" where
  "group_keys ks = sort (remdups (somes ks))"

text \<open>
  Line 72: \<^verbatim>\<open>groupby(...)[col].count()\<close> counts, per group, the rows whose
  \<^verbatim>\<open>col\<close> cell is not missing; \<^verbatim>\<open>to_dict()\<close> keeps the order of the groups. The
  dictionary is the list of its items.
\<close>

definition resumo_nucleo :: "occurrence list \<Rightarrow> (string \<times> nat) list" where
  "resumo_nucleo df =
     map (\<lambda>k. (k, length (filter (\<lambda>r. nucleo_de_atuacao r = Some k
                                      \<and> notna (ocorrencia_cadastro r)) df)))
       (group_keys (map nucleo_de_atuacao df))"

text \<open>
  A calendar date is (year, month, day), ordered lexicographically, which is the
  chronological order; a timestamp is a date and the nanoseconds elapsed in that day.
  \<^verbatim>\<open>pd.to_datetime(col, errors="coerce")\<close> is library code taken as the parameter
  \<open>parse\<close>: it reads one cell in the context of its column (pandas infers the format
  from the column) and gives \<open>None\<close> (NaT) for a cell it cannot read.
\<close>

type_synonym date = "int \<times> nat \<times> nat"

type_synonym timestamp = "date \<times> nat"

definition to_datetime ::
  "(cell list \<Rightarrow> cell \<Rightarrow> timestamp option) \<Rightarrow> cell list \<Rightarrow> timestamp option list" where
  "to_datetime parse col = map (parse col) col"

definition dt_date :: "timestamp option \<Rightarrow> date option" where
  "dt_date t = map_option fst t"

text \<open>The calendar date of every row after line 75, \<open>None\<close> where the cell did not
  parse.\<close>

definition parsed_dates ::
  "(cell list \<Rightarrow> cell \<Rightarrow> timestamp option) \<Rightarrow> occurrence list \<Rightarrow> date option list" where
  "parsed_dates parse df = map dt_date (to_datetime parse (map data_cadastro df))"

text \<open>Line 76: \<^verbatim>\<open>groupby(dates).size()\<close> counts the rows of each group.\<close>

definition resumo_data ::
  "(cell list \<Rightarrow> cell \<Rightarrow> timestamp option) \<Rightarrow> occurrence list \<Rightarrow> (date \<times> nat) list" where
  "resumo_data parse df =
     (let dates = parsed_dates parse df
      in map (\<lambda>d. (d, count_list dates (Some d))) (group_keys dates))"

section \<open>Numeric columns of the coverage table\<close>

text \<open>\<^verbatim>\<open>pd.to_numeric(..., errors="coerce")\<close> on one text: NaN where it is no number.\<close>

definition to_numeric :: "string \<Rightarrow> pyfloat" where
  "to_numeric s = (case parse_float False s of None \<Rightarrow> NaN | Some x \<Rightarrow> x)"

text \<open>Lines 37 to 44; the argument is \<^verbatim>\<open>df[coluna]\<close>, or \<open>None\<close> when the frame has no
  such column.\<close>

definition converter_coluna_numerica :: "cell list option \<Rightarrow> pyfloat list" where
  "converter_coluna_numerica col =
     (case col of
        None \<Rightarrow> []
      | Some vs \<Rightarrow> map (\<lambda>v. to_numeric (replace_comma (py_str v))) vs)"

text \<open>Addition of floats: IEEE on the special values, the exact sum (with overflow) on
  finite ones.\<close>

fun fadd :: "pyfloat \<Rightarrow> pyfloat \<Rightarrow> pyfloat" where
  "fadd NaN y = NaN"
| "fadd x NaN = NaN"
| "fadd PosInf NegInf = NaN"
| "fadd NegInf PosInf = NaN"
| "fadd PosInf y = PosInf"
| "fadd x PosInf = PosInf"
| "fadd NegInf y = NegInf"
| "fadd x NegInf = NegInf"
| "fadd (Finite a) (Finite b) = of_decimal (a + b)"

text \<open>\<^verbatim>\<open>Series.sum()\<close> with its default \<^verbatim>\<open>skipna=True\<close>: pandas fills the missing
  entries with 0 and adds up.\<close>

definition fillna0 :: "pyfloat \<Rightarrow> pyfloat" where
  "fillna0 x = (if x = NaN then Finite 0 else x)"


definition series_sum :: "pyfloat list \<Rightarrow> pyfloat" where
  "series_sum xs = foldl fadd (Finite 0) (map fillna0 xs)"

text \<open>\<^verbatim>\<open>df[col] = s\<close> on a frame of \<open>n\<close> rows, both indexed from 0: a row the series
  does not reach is missing.\<close>

definition assign_series :: "nat \<Rightarrow> pyfloat list \<Rightarrow> pyfloat list" where
  "assign_series n s = map (\<lambda>i. if i < length s then s ! i else NaN) [0..<n]"

record area_table =
  area_rows :: nat
  rede_esgoto_200 :: "cell list option"
  rede_110_agua :: "cell list option"

definition total_rede :: "nat \<Rightarrow> cell list option \<Rightarrow> pyfloat" where
  "total_rede n col = series_sum (assign_series n (converter_coluna_numerica col))"

section \<open>The script\<close>

record report =
  total_ocorrencias :: nat
  soma_caixa_uma :: nat
  total_quantidade_instalacao :: nat
  total_rede_esgoto :: pyfloat
  total_rede_agua :: pyfloat
  panel_nucleo :: "(string \<times> nat) list"
  panel_data :: "(date \<times> nat) list"
  layers :: "layer list"

text \<open>Lines 54 to 182 on the two downloaded tables.\<close>

definition script ::
  "(cell list \<Rightarrow> cell \<Rightarrow> timestamp option) \<Rightarrow> occurrence list \<Rightarrow> area_table
     \<Rightarrow> py_error + report" where
  "script parse df_ocorrencias df_area =
     (if df_ocorrencias = [] \<or> area_rows df_area = 0 then Inl SystemExit
      else (let df = dropna_nucleo df_ocorrencias
            in case map_layers df of
                 Inl e \<Rightarrow> Inl e
               | Inr ls \<Rightarrow>
                   Inr \<lparr> total_ocorrencias = count_notna ocorrencia_cadastro df,
                         soma_caixa_uma = count_notna ocorrencia_caixa_uma df,
                         total_quantidade_instalacao = count_notna ocorrencia_ligacao df,
                         total_rede_esgoto =
                           total_rede (area_rows df_area) (rede_esgoto_200 df_area),
                         total_rede_agua =
                           total_rede (area_rows df_area) (rede_110_agua df_area),
                         panel_nucleo = resumo_nucleo df,
                         panel_data = resumo_data parse df,
                         layers = ls \<rparr>))"

section \<open>Sample rows\<close>

definition sample_row :: "string \<Rightarrow> cell \<Rightarrow> cell option \<Rightarrow> cell option \<Rightarrow> occurrence" where
  "sample_row n oc geo func =
     \<lparr> nucleo_de_atuacao = Some n, ocorrencia_cadastro = oc, ocorrencia_caixa_uma = NA,
       ocorrencia_ligacao = NA, data_cadastro = NA, geolocation = geo,
       funcionario_cadastro = func \<rparr>"

definition is_finite :: "pyfloat \<Rightarrow> bool" where
  "is_finite x = (case x of Finite q \<Rightarrow> True | _ \<Rightarrow> False)"

text \<open>Nine categories, the first of them seen again at the end.\<close>

definition nine_nucleos :: "occurrence list" where
  "nine_nucleos =
     map (\<lambda>n. sample_row n NA None None)
       [''A'', ''B'', ''C'', ''D'', ''E'', ''F'', ''G'', ''H'', ''I'', ''A'']"

text \<open>The scenario of the specification: two rows of category A, one of them with the
  coordinate text \<^verbatim>\<open>bad\<close>, and one row of category B.\<close>

definition scenario :: "occurrence list" where
  "scenario =
     [sample_row ''A'' (Str ''x'') (Some (Str ''1.5,-2.25'')) None,
      sample_row ''A'' (Str ''y'') (Some (Str ''bad'')) None,
      sample_row ''B'' (Str ''z'') (Some (Str ''0,0'')) None]"



text \<open>Category B is seen before category A.\<close>

definition ba_rows :: "occurrence list" where
  "ba_rows = [sample_row ''B'' (Str ''x'') None None, sample_row ''A'' (Str ''y'') None None]"

text \<open>One row with a category and an empty occurrence field.\<close>

definition unregistered_row :: "occurrence list" where
  "unregistered_row = [sample_row ''A'' NA None None]"

section \<open>Properties\<close>


declare show_nat.simps [simp del]

lemmas float_defs = py_float_def parse_float_def parse_number_def split_sign_def strip_def
  is_space_def is_word_def lower_code_def split_first_def mantissa_ok_def exponent_of_def
  is_digit_def digits_value_def digit_val_def pow10_def of_decimal_def overflow_bound_def



lemma unpack2_error: "unpack2 ps = Inl e \<Longrightarrow> e = ValueError"
  by (induction ps rule: unpack2.induct) (auto split: option.splits)

lemma unpack2_Inr:
  "unpack2 ps = Inr (x, y) \<longleftrightarrow> (\<exists>a b. ps = [a, b] \<and> py_float a = Some x \<and> py_float b = Some y)"
  by (induction ps rule: unpack2.induct) (auto split: option.splits)

lemma marker_row_Str:
  assumes "geolocation row = Some (Str s)"
  shows "marker_row cn b row =
     (if CHR '','' \<in> set s
      then (case unpack2 (split_on (CHR '','') s) of
              Inl e \<Rightarrow> Inr None
            | Inr (la, lo) \<Rightarrow>
                (case cn b of
                   None \<Rightarrow> Inl KeyError
                 | Some c \<Rightarrow>
                     if la = NaN \<or> lo = NaN then Inr None
                     else Inr (Some \<lparr> marker_lat = la, marker_lng = lo,
                                      marker_popup = popup_html row, icon_color = c \<rparr>)))
      else Inr None)"
  using assms
  by (auto simp: marker_row_def row_get_def notna_def has_comma_def try_marker_def cell_split_def
      validate_location_def split: sum.splits option.splits prod.splits py_error.splits
      dest: unpack2_error)

lemma marker_row_absent: "geolocation row = None \<Longrightarrow> marker_row cn b row = Inr None"
  by (simp add: marker_row_def row_get_def notna_def)

lemma marker_row_NA: "geolocation row = Some NA \<Longrightarrow> marker_row cn b row = Inr None"
  by (simp add: marker_row_def row_get_def notna_def)

lemma marker_row_Int: "geolocation row = Some (IntCell i) \<Longrightarrow> marker_row cn b row = Inl TypeError"
  by (simp add: marker_row_def row_get_def notna_def has_comma_def)

lemma marker_row_SomeD:
  assumes "marker_row cn b row = Inr (Some m)"
  shows "\<exists>s p q. geolocation row = Some (Str s) \<and> split_on (CHR '','') s = [p, q]
           \<and> py_float p = Some (marker_lat m) \<and> py_float q = Some (marker_lng m)
           \<and> marker_lat m \<noteq> NaN \<and> marker_lng m \<noteq> NaN
           \<and> cn b = Some (icon_color m) \<and> marker_popup m = popup_html row"
proof (cases "geolocation row")
  case None
  with assms show ?thesis by (simp add: marker_row_absent)
next
  case (Some g)
  show ?thesis
  proof (cases g)
    case NA
    with Some assms show ?thesis by (simp add: marker_row_NA)
  next
    case (IntCell i)
    with Some assms show ?thesis by (simp add: marker_row_Int)
  next
    case (Str s)
    with Some have g: "geolocation row = Some (Str s)" by simp
    from assms obtain la lo c where
      u: "unpack2 (split_on (CHR '','') s) = Inr (la, lo)" and c: "cn b = Some c"
      and n: "la \<noteq> NaN" "lo \<noteq> NaN"
      and m: "m = \<lparr> marker_lat = la, marker_lng = lo, marker_popup = popup_html row,
                    icon_color = c \<rparr>"
      unfolding marker_row_Str [OF g]
      by (auto split: if_splits sum.splits option.splits prod.splits)
    from u obtain p q where "split_on (CHR '','') s = [p, q]" "py_float p = Some la"
      "py_float q = Some lo"
      by (auto simp: unpack2_Inr)
    with g c n m show ?thesis by simp
  qed
qed

lemma marker_row_error:
  assumes "cn b = Some c" and "marker_row cn b row = Inl e"
  shows "e = TypeError"
proof (cases "geolocation row")
  case None
  with assms show ?thesis by (simp add: marker_row_absent)
next
  case (Some g)
  show ?thesis
  proof (cases g)
    case NA
    with Some assms show ?thesis by (simp add: marker_row_NA)
  next
    case (IntCell i)
    with Some assms show ?thesis by (simp add: marker_row_Int)
  next
    case (Str s)
    with Some have g: "geolocation row = Some (Str s)" by simp
    from assms show ?thesis
      unfolding marker_row_Str [OF g]
      by (auto split: if_splits sum.splits option.splits prod.splits)
  qed
qed

lemma add_markers_error:
  "cn b = Some c \<Longrightarrow> add_markers cn b rows = Inl e \<Longrightarrow> e = TypeError"
  by (induction rows) (auto split: sum.splits dest: marker_row_error)

lemma add_markers_TypeError:
  assumes "cn b = Some c" and "geolocation r = Some (IntCell i)"
  shows "r \<in> set rows \<Longrightarrow> add_markers cn b rows = Inl TypeError"
proof (induction rows)
  case Nil
  then show ?case by simp
next
  case (Cons x rows)
  show ?case
  proof (cases "marker_row cn b x")
    case (Inl e)
    with assms(1) have "e = TypeError" by (auto dest: marker_row_error)
    with Inl show ?thesis by simp
  next
    case (Inr mo)
    with assms(2) have "x \<noteq> r" by (auto simp: marker_row_Int)
    with Cons have "add_markers cn b rows = Inl TypeError" by simp
    with Inr show ?thesis by simp
  qed
qed

lemma build_layers_error:
  "\<forall>b \<in> set bs. \<exists>c. cn b = Some c \<Longrightarrow> build_layers cn df bs = Inl e \<Longrightarrow> e = TypeError"
  by (induction bs) (auto split: sum.splits dest: add_markers_error)

lemma build_layers_TypeError:
  assumes "r \<in> set df" and "nucleo_de_atuacao r = Some n" and "geolocation r = Some (IntCell i)"
  shows "\<forall>b \<in> set bs. \<exists>c. cn b = Some c \<Longrightarrow> n \<in> set bs \<Longrightarrow> build_layers cn df bs = Inl TypeError"
proof (induction bs)
  case Nil
  then show ?case by simp
next
  case (Cons b bs)
  show ?case
  proof (cases "add_markers cn b (filter (\<lambda>r. nucleo_de_atuacao r = Some b) df)")
    case (Inl e)
    with Cons.prems have "e = TypeError" by (auto dest: add_markers_error)
    with Inl show ?thesis by simp
  next
    case (Inr ms)
    have "n \<noteq> b"
    proof
      assume "n = b"
      with assms have "r \<in> set (filter (\<lambda>r. nucleo_de_atuacao r = Some b) df)" by simp
      with Cons.prems assms(3) have
        "add_markers cn b (filter (\<lambda>r. nucleo_de_atuacao r = Some b) df) = Inl TypeError"
        by (auto intro: add_markers_TypeError)
      with Inr show False by simp
    qed
    with Cons have "build_layers cn df bs = Inl TypeError" by simp
    with Inr show ?thesis by simp
  qed
qed

lemma set_unique_from: "set (unique_from seen xs) = set xs - set seen"
  by (induction xs arbitrary: seen) auto

lemma distinct_unique_from: "distinct (unique_from seen xs)"
  by (induction xs arbitrary: seen) (auto simp: set_unique_from)

lemma set_unique: "set (unique xs) = set xs"
  by (simp add: unique_def set_unique_from)

lemma distinct_unique: "distinct (unique xs)"
  by (simp add: unique_def distinct_unique_from)

lemma set_somes: "set (somes xs) = {x. Some x \<in> set xs}"
  by (induction xs rule: somes.induct) auto

lemma set_nucleos_of: "set (nucleos_of df) = {n. \<exists>r \<in> set df. nucleo_de_atuacao r = Some n}"
  by (force simp: nucleos_of_def set_unique set_somes image_iff)

lemma keys_cores_nucleo: "map fst (cores_nucleo_items ns) = ns"
  by (simp add: cores_nucleo_items_def case_prod_unfold comp_def)

lemma length_cores: "length cores = 8"
  by (simp add: cores_def)

lemma dict_get_color:
  assumes "distinct ns" and "i < length ns"
  shows "dict_get (cores_nucleo_items ns) (ns ! i) = Some (cores ! (i mod 8))"
proof -
  have "cores_nucleo_items ns ! i = (ns ! i, cores ! (i mod 8))"
    using assms(2) by (simp add: cores_nucleo_items_def nth_enumerate_eq length_cores)
  moreover have "i < length (cores_nucleo_items ns)"
    using assms(2) by (simp add: cores_nucleo_items_def)
  ultimately have "(ns ! i, cores ! (i mod 8)) \<in> set (rev (cores_nucleo_items ns))"
    by (metis nth_mem set_rev)
  moreover have "distinct (map fst (rev (cores_nucleo_items ns)))"
    using assms(1) by (simp add: rev_map [symmetric] keys_cores_nucleo)
  ultimately show ?thesis
    unfolding dict_get_def by (rule map_of_is_SomeI [rotated])
qed

lemma dict_get_defined: "b \<in> set ns \<Longrightarrow> dict_get (cores_nucleo_items ns) b \<noteq> None"
proof -
  assume "b \<in> set ns"
  then have "b \<in> fst ` set (rev (cores_nucleo_items ns))"
    using keys_cores_nucleo [of ns] by (metis set_map set_rev)
  then show ?thesis
    by (simp add: dict_get_def map_of_eq_None_iff)
qed

lemma add_markers_color:
  "add_markers cn b rows = Inr ms \<Longrightarrow> m \<in> set ms \<Longrightarrow> cn b = Some (icon_color m)"
proof (induction rows arbitrary: ms)
  case Nil
  then show ?case by simp
next
  case (Cons r rows)
  then show ?case
    by (auto split: sum.splits option.splits dest!: marker_row_SomeD)
qed

lemma build_layers_color:
  "build_layers cn df bs = Inr ls \<Longrightarrow>
     map layer_name ls = bs \<and>
     (\<forall>l \<in> set ls. \<forall>m \<in> set (layer_markers l). cn (layer_name l) = Some (icon_color m))"
proof (induction bs arbitrary: ls)
  case Nil
  then show ?case by simp
next
  case (Cons b bs)
  from Cons.prems obtain ms ls' where
    ms: "add_markers cn b (filter (\<lambda>r. nucleo_de_atuacao r = Some b) df) = Inr ms"
    and ls': "build_layers cn df bs = Inr ls'"
    and ls: "ls = \<lparr> layer_name = b, layer_markers = ms \<rparr> # ls'"
    by (auto split: sum.splits)
  have "\<forall>m \<in> set ms. cn b = Some (icon_color m)"
    using add_markers_color [OF ms] by blast
  with Cons.IH [OF ls'] ls show ?case by simp
qed

lemmas row_defs = sample_row_def popup_html_def py_str_def row_get_def

lemma float_1_5: "py_float ''1.5'' = Some (Finite (3 / 2))"
  by (simp add: float_defs)

lemma float_m2_25: "py_float ''-2.25'' = Some (Finite (- 9 / 4))"
  by (simp add: float_defs)

lemma float_inf: "py_float ''inf'' = Some PosInf"
  by (simp add: float_defs)

lemma float_0: "py_float ''0'' = Some (Finite 0)"
  by (simp add: float_defs)




text \<open>
  C5, as amended. The coordinates of every marker the loop body builds are the floats that
  \<^verbatim>\<open>float\<close> read from the two comma-separated parts of the row's coordinate string, and
  neither of them is NaN. They need not be finite: \<^verbatim>\<open>float\<close> accepts \<^verbatim>\<open>inf\<close>, and
  nothing in the loop rejects an infinite coordinate, as the row with \<^verbatim>\<open>"inf,0"\<close> shows.
\<close>

theorem marker_coordinates:
  assumes "marker_row cn bairro row = Inr (Some m)"
  shows "marker_lat m \<noteq> NaN \<and> marker_lng m \<noteq> NaN
       \<and> (\<exists>s a b. geolocation row = Some (Str s) \<and> split_on (CHR '','') s = [a, b]
                  \<and> py_float a = Some (marker_lat m) \<and> py_float b = Some (marker_lng m))"
  using marker_row_SomeD [OF assms] by blast

theorem marker_infinite_counterexample:
  "marker_row (\<lambda>b. Some ''red'') ''A''
     (sample_row ''A'' (Str ''x'') (Some (Str ''inf,0'')) None) =
     Inr (Some \<lparr> marker_lat = PosInf, marker_lng = Finite 0,
                 marker_popup = \<lparr> nucleo_field = ''A'', ocorrencia_field = ''x'',
                                   funcionario_field = ''N/A'' \<rparr>,
                 icon_color = ''red'' \<rparr>)
   \<and> \<not> is_finite PosInf"
proof -
  have g: "geolocation (sample_row ''A'' (Str ''x'') (Some (Str ''inf,0'')) None)
             = Some (Str ''inf,0'')"
    by (simp add: sample_row_def)
  show ?thesis
    by (subst marker_row_Str [OF g]) (simp add: float_inf float_0 row_defs is_finite_def)
qed


theorem marker_coordinates_witness:
  "marker_lat \<lparr> marker_lat = PosInf, marker_lng = Finite 0,
                marker_popup = \<lparr> nucleo_field = ''A'', ocorrencia_field = ''x'',
                                  funcionario_field = ''N/A'' \<rparr>,
                icon_color = ''red'' \<rparr> \<noteq> NaN
   \<and> (\<exists>s a b. geolocation (sample_row ''A'' (Str ''x'') (Some (Str ''inf,0'')) None) = Some (Str s)
         \<and> split_on (CHR '','') s = [a, b] \<and> py_float a = Some PosInf
         \<and> py_float b = Some (Finite 0))"
proof -
  have g: "geolocation (sample_row ''A'' (Str ''x'') (Some (Str ''inf,0'')) None)
             = Some (Str ''inf,0'')"
    by (simp add: sample_row_def)
  have "marker_row (\<lambda>b. Some ''red'') ''A''
     (sample_row ''A'' (Str ''x'') (Some (Str ''inf,0'')) None) =
     Inr (Some \<lparr> marker_lat = PosInf, marker_lng = Finite 0,
                 marker_popup = \<lparr> nucleo_field = ''A'', ocorrencia_field = ''x'',
                                   funcionario_field = ''N/A'' \<rparr>,
                 icon_color = ''red'' \<rparr>)"
    by (subst marker_row_Str [OF g]) (simp add: float_inf float_0 row_defs)
  from marker_coordinates [OF this] show ?thesis by simp
qed

text \<open>
  C6. The popup takes the category, the occurrence identifier and the employee name of the
  row. For a row whose employee cell is present but empty (NaN) the popup shows the text
  \<^verbatim>\<open>nan\<close>, not the placeholder \<^verbatim>\<open>N/A\<close>: the default of \<^verbatim>\<open>row.get\<close> is used only when
  the sheet has no employee column at all.
\<close>

theorem popup_missing_employee:
  "marker_row (\<lambda>b. Some ''red'') ''A''
     (sample_row ''A'' (Str ''x'') (Some (Str ''1.5,-2.25'')) (Some NA)) =
     Inr (Some \<lparr> marker_lat = Finite (3 / 2), marker_lng = Finite (- 9 / 4),
                 marker_popup = \<lparr> nucleo_field = ''A'', ocorrencia_field = ''x'',
                                   funcionario_field = ''nan'' \<rparr>,
                 icon_color = ''red'' \<rparr>)
   \<and> funcionario_field (popup_html (sample_row ''A'' (Str ''x'') (Some (Str ''1.5,-2.25'')) (Some NA)))
       \<noteq> ''N/A''"
proof -
  have g: "geolocation (sample_row ''A'' (Str ''x'') (Some (Str ''1.5,-2.25'')) (Some NA))
             = Some (Str ''1.5,-2.25'')"
    by (simp add: sample_row_def)
  show ?thesis
    by (subst marker_row_Str [OF g]) (simp add: float_1_5 float_m2_25 row_defs)
qed

lemma popup_fields:
  "funcionario_field (popup_html row) =
     (case funcionario_cadastro row of None \<Rightarrow> ''N/A'' | Some c \<Rightarrow> py_str c)"
  "ocorrencia_field (popup_html row) = py_str (ocorrencia_cadastro row)"
  "nucleo_de_atuacao row = Some n \<Longrightarrow> nucleo_field (popup_html row) = n"
  by (simp_all add: popup_html_def row_get_def py_str_def split: option.splits)

lemma nucleo_in_nucleos_of:
  "r \<in> set df \<Longrightarrow> nucleo_de_atuacao r = Some n \<Longrightarrow> n \<in> set (nucleos_of df)"
  by (auto simp: set_nucleos_of)

lemma map_layers_error: "map_layers df = Inl e \<Longrightarrow> e = TypeError"
  unfolding map_layers_def Let_def
  by (rule build_layers_error [rotated]) (auto dest: dict_get_defined)

lemma map_layers_TypeError:
  assumes "r \<in> set df" and "nucleo_de_atuacao r = Some n" and "geolocation r = Some (IntCell i)"
  shows "map_layers df = Inl TypeError"
  unfolding map_layers_def Let_def
  by (rule build_layers_TypeError [OF assms])
     (auto dest: dict_get_defined simp: nucleo_in_nucleos_of [OF assms(1,2)])

text \<open>
  C10. The guard of the loop body tests \<^verbatim>\<open>"," in\<close> on any cell that is not missing, and
  the handler catches \<^verbatim>\<open>ValueError\<close> only. So the loop body ends normally for every row
  whose coordinate cell is absent, missing or a string, and raises \<^verbatim>\<open>TypeError\<close> for a row
  whose coordinate cell is a number; one such row (with a category) makes the whole marker
  construction, and with it the script, end in that \<^verbatim>\<open>TypeError\<close>.
\<close>

theorem marker_loop_type_error:
  "(geolocation row = Some (IntCell i) \<longrightarrow> marker_row cn bairro row = Inl TypeError)
   \<and> ((\<forall>j. geolocation row \<noteq> Some (IntCell j)) \<and> cn bairro = Some col
        \<longrightarrow> (\<exists>r. marker_row cn bairro row = Inr r))
   \<and> (row \<in> set df \<and> nucleo_de_atuacao row = Some n \<and> geolocation row = Some (IntCell i)
        \<longrightarrow> map_layers (dropna_nucleo df) = Inl TypeError
            \<and> (0 < area_rows area \<longrightarrow> script parse df area = Inl TypeError))"
proof (intro conjI impI)
  assume "geolocation row = Some (IntCell i)"
  then show "marker_row cn bairro row = Inl TypeError" by (rule marker_row_Int)
next
  assume h: "(\<forall>j. geolocation row \<noteq> Some (IntCell j)) \<and> cn bairro = Some col"
  show "\<exists>r. marker_row cn bairro row = Inr r"
  proof (cases "marker_row cn bairro row")
    case (Inr r)
    then show ?thesis by blast
  next
    case (Inl e)
    have "\<exists>j. geolocation row = Some (IntCell j)"
    proof (cases "geolocation row")
      case None
      with Inl show ?thesis by (simp add: marker_row_absent)
    next
      case (Some g)
      show ?thesis
      proof (cases g)
        case NA
        with Some Inl show ?thesis by (simp add: marker_row_NA)
      next
        case (IntCell j)
        with Some show ?thesis by simp
      next
        case (Str s)
        with Some have g: "geolocation row = Some (Str s)" by simp
        from Inl h show ?thesis
          unfolding marker_row_Str [OF g]
          by (auto split: if_splits sum.splits option.splits prod.splits)
      qed
    qed
    with h show ?thesis by blast
  qed
next
  assume h: "row \<in> set df \<and> nucleo_de_atuacao row = Some n \<and> geolocation row = Some (IntCell i)"
  then have "row \<in> set (dropna_nucleo df)"
    by (simp add: dropna_nucleo_def)
  with h show l: "map_layers (dropna_nucleo df) = Inl TypeError"
    by (blast intro: map_layers_TypeError)
  assume "0 < area_rows area"
  moreover from h have "df \<noteq> []" by auto
  ultimately show "script parse df area = Inl TypeError"
    by (simp add: script_def l)
qed

theorem marker_loop_type_error_witness:
  "marker_row (\<lambda>b. Some ''red'') ''A'' (sample_row ''A'' (Str ''x'') (Some (IntCell 5)) None)
     = Inl TypeError
   \<and> (\<exists>r. marker_row (\<lambda>b. Some ''red'') ''A'' (sample_row ''A'' (Str ''x'') (Some NA) None)
           = Inr r)
   \<and> map_layers (dropna_nucleo [sample_row ''A'' (Str ''x'') (Some (IntCell 5)) None])
       = Inl TypeError
   \<and> script (\<lambda>col c. None) [sample_row ''A'' (Str ''x'') (Some (IntCell 5)) None]
       \<lparr> area_rows = 1, rede_esgoto_200 = None, rede_110_agua = None \<rparr> = Inl TypeError"
proof -
  note t1 = marker_loop_type_error [where row = "sample_row ''A'' (Str ''x'') (Some (IntCell 5)) None"
      and i = 5 and cn = "\<lambda>b. Some ''red''" and bairro = "''A''" and n = "''A''"
      and df = "[sample_row ''A'' (Str ''x'') (Some (IntCell 5)) None]"
      and area = "\<lparr> area_rows = 1, rede_esgoto_200 = None, rede_110_agua = None \<rparr>"
      and parse = "\<lambda>col c. None" and col = "''red''"]
  note t2 = marker_loop_type_error [where row = "sample_row ''A'' (Str ''x'') (Some NA) None"
      and cn = "\<lambda>b. Some ''red''" and bairro = "''A''" and col = "''red''"]
  have "marker_row (\<lambda>b. Some ''red'') ''A'' (sample_row ''A'' (Str ''x'') (Some (IntCell 5)) None)
     = Inl TypeError"
    using t1 by (simp add: sample_row_def)
  moreover have "\<exists>r. marker_row (\<lambda>b. Some ''red'') ''A''
      (sample_row ''A'' (Str ''x'') (Some NA) None) = Inr r"
    using t2 by (simp add: sample_row_def)
  moreover have "map_layers (dropna_nucleo [sample_row ''A'' (Str ''x'') (Some (IntCell 5)) None])
       = Inl TypeError
   \<and> script (\<lambda>col c. None) [sample_row ''A'' (Str ''x'') (Some (IntCell 5)) None]
       \<lparr> area_rows = 1, rede_esgoto_200 = None, rede_110_agua = None \<rparr> = Inl TypeError"
    using t1 by (simp add: sample_row_def)
  ultimately show ?thesis by simp
qed

lemma unique_from_cong: "set seen = set seen' \<Longrightarrow> unique_from seen xs = unique_from seen' xs"
proof (induction xs arbitrary: seen seen')
  case Nil
  show ?case by simp
next
  case (Cons x xs)
  have "set (x # seen) = set (x # seen')" using Cons.prems by simp
  from Cons.IH [OF this] Cons.IH [OF Cons.prems] Cons.prems show ?case by simp
qed

lemma unique_from_append:
  "unique_from seen (xs @ ys) = unique_from seen xs @ unique_from (xs @ seen) ys"
proof (induction xs arbitrary: seen)
  case Nil
  then show ?case by simp
next
  case (Cons x xs)
  have "unique_from (xs @ x # seen) ys = unique_from (x # xs @ seen) ys"
    by (rule unique_from_cong) auto
  moreover have "x \<in> set seen \<Longrightarrow> unique_from (xs @ seen) ys = unique_from (x # xs @ seen) ys"
    by (rule unique_from_cong) auto
  ultimately show ?case
    using Cons.IH [of seen] Cons.IH [of "x # seen"] by simp
qed

lemma somes_append: "somes (xs @ ys) = somes xs @ somes ys"
  by (induction xs rule: somes.induct) auto

lemma nucleos_of_append: "\<exists>new. nucleos_of (df @ later) = nucleos_of df @ new"
  by (simp add: nucleos_of_def unique_def somes_append unique_from_append)

lemma distinct_nucleos_of: "distinct (nucleos_of df)"
  by (simp add: nucleos_of_def distinct_unique)

lemma map_layers_color:
  assumes "map_layers df = Inr ls"
  shows "map layer_name ls = nucleos_of df"
    and "\<forall>l \<in> set ls. \<forall>m \<in> set (layer_markers l).
           dict_get (cores_nucleo_items (nucleos_of df)) (layer_name l) = Some (icon_color m)"
  using build_layers_color [of "dict_get (cores_nucleo_items (nucleos_of df))" df "nucleos_of df" ls]
    assms
  by (simp_all add: map_layers_def Let_def)

text \<open>
  C7. The palette has 8 colours. The categories are taken in the order of their first
  appearance (rows added after a table never reorder the categories already seen); the
  category at position \<open>i\<close> of that order is given colour \<open>i mod 8\<close> of the palette, so
  the ninth category has the colour of the first; and every marker of a layer carries the
  colour that the dictionary holds for the layer's category.
\<close>

theorem color_assignment:
  "length cores = 8
   \<and> (\<forall>i < length (nucleos_of df).
         dict_get (cores_nucleo_items (nucleos_of df)) (nucleos_of df ! i)
           = Some (cores ! (i mod 8)))
   \<and> (8 < length (nucleos_of df)
        \<longrightarrow> dict_get (cores_nucleo_items (nucleos_of df)) (nucleos_of df ! 8)
            = dict_get (cores_nucleo_items (nucleos_of df)) (nucleos_of df ! 0))
   \<and> (\<exists>new. nucleos_of (df @ later) = nucleos_of df @ new)
   \<and> (\<forall>ls. map_layers df = Inr ls
        \<longrightarrow> map layer_name ls = nucleos_of df
            \<and> (\<forall>l \<in> set ls. \<forall>m \<in> set (layer_markers l).
                  dict_get (cores_nucleo_items (nucleos_of df)) (layer_name l)
                    = Some (icon_color m)))"
proof (intro conjI allI impI ballI)
  show "length cores = 8" by (rule length_cores)
next
  fix i assume "i < length (nucleos_of df)"
  then show "dict_get (cores_nucleo_items (nucleos_of df)) (nucleos_of df ! i)
           = Some (cores ! (i mod 8))"
    by (rule dict_get_color [OF distinct_nucleos_of])
next
  assume l: "8 < length (nucleos_of df)"
  then have "0 < length (nucleos_of df)" by linarith
  from dict_get_color [OF distinct_nucleos_of l] dict_get_color [OF distinct_nucleos_of this]
  show "dict_get (cores_nucleo_items (nucleos_of df)) (nucleos_of df ! 8)
            = dict_get (cores_nucleo_items (nucleos_of df)) (nucleos_of df ! 0)"
    by simp
next
  show "\<exists>new. nucleos_of (df @ later) = nucleos_of df @ new"
    by (rule nucleos_of_append)
next
  fix ls assume "map_layers df = Inr ls"
  then show "map layer_name ls = nucleos_of df"
    by (rule map_layers_color)
next
  fix ls l m
  assume "map_layers df = Inr ls" "l \<in> set ls" "m \<in> set (layer_markers l)"
  then show "dict_get (cores_nucleo_items (nucleos_of df)) (layer_name l) = Some (icon_color m)"
    using map_layers_color(2) by blast
qed
lemma nucleos_nine:
  "nucleos_of nine_nucleos = [''A'', ''B'', ''C'', ''D'', ''E'', ''F'', ''G'', ''H'', ''I'']"
  by (simp add: nucleos_of_def nine_nucleos_def sample_row_def unique_def)

theorem color_assignment_witness:
  "dict_get (cores_nucleo_items (nucleos_of nine_nucleos)) ''I'' = Some ''red''
   \<and> dict_get (cores_nucleo_items (nucleos_of nine_nucleos)) ''A'' = Some ''red''
   \<and> dict_get (cores_nucleo_items (nucleos_of nine_nucleos)) ''B'' = Some ''blue''"
proof -
  note t = color_assignment [of nine_nucleos "[]"]
  from t have i: "\<And>i. i < 9 \<Longrightarrow>
      dict_get (cores_nucleo_items (nucleos_of nine_nucleos)) (nucleos_of nine_nucleos ! i)
        = Some (cores ! (i mod 8))"
    by (simp add: nucleos_nine)
  from i [of 8] i [of 0] i [of 1] show ?thesis
    by (simp add: nucleos_nine cores_def)
qed


lemma sorted_group_keys: "sorted (group_keys ks)"
  by (simp add: group_keys_def)

lemma distinct_group_keys: "distinct (group_keys ks)"
  by (simp add: group_keys_def)

lemma set_group_keys: "set (group_keys ks) = {k. Some k \<in> set ks}"
  by (simp add: group_keys_def set_somes)

lemma group_keys_unique: "group_keys ks = sort (unique (somes ks))"
  by (rule sorted_distinct_set_unique)
     (simp_all add: sorted_group_keys distinct_group_keys set_group_keys distinct_unique
        set_unique set_somes)

lemma keys_resumo_nucleo: "map fst (resumo_nucleo df) = group_keys (map nucleo_de_atuacao df)"
  by (simp add: resumo_nucleo_def comp_def)

text \<open>
  C2, as amended. The keys of the category summary are the distinct categories in
  ascending order: the first-seen sequence of the categories, sorted. The order of first
  appearance itself is not kept, as the table with B before A shows.
\<close>

theorem resumo_nucleo_keys:
  "map fst (resumo_nucleo df) = sort (nucleos_of df)
   \<and> sorted_wrt (<) (map fst (resumo_nucleo df))"
  by (simp add: keys_resumo_nucleo strict_sorted_iff sorted_group_keys distinct_group_keys)
     (simp add: group_keys_unique nucleos_of_def)

theorem resumo_nucleo_keys_witness:
  "map fst (resumo_nucleo (dropna_nucleo ba_rows)) = [''A'', ''B'']"
proof -
  have "nucleos_of (dropna_nucleo ba_rows) = [''B'', ''A'']"
    by (simp add: nucleos_of_def dropna_nucleo_def ba_rows_def sample_row_def unique_def)
  with resumo_nucleo_keys [of "dropna_nucleo ba_rows"] show ?thesis by simp
qed

theorem first_seen_order_counterexample:
  "map fst (resumo_nucleo (dropna_nucleo ba_rows)) = [''A'', ''B'']
   \<and> nucleos_of (dropna_nucleo ba_rows) = [''B'', ''A'']
   \<and> map fst (resumo_nucleo (dropna_nucleo ba_rows)) \<noteq> nucleos_of (dropna_nucleo ba_rows)"
  by (simp add: resumo_nucleo_def group_keys_def nucleos_of_def dropna_nucleo_def ba_rows_def
      sample_row_def unique_def)

lemma length_filter_disjoint:
  "(\<And>x. \<not> (P x \<and> Q x)) \<Longrightarrow>
     length (filter P xs) + length (filter Q xs) = length (filter (\<lambda>x. P x \<or> Q x) xs)"
  by (induction xs) auto

lemma sum_group_counts:
  "distinct ks \<Longrightarrow>
     sum_list (map (\<lambda>k. length (filter (\<lambda>r. key r = Some k \<and> P r) df)) ks)
       = length (filter (\<lambda>r. (\<exists>k \<in> set ks. key r = Some k) \<and> P r) df)"
proof (induction ks)
  case Nil
  then show ?case by simp
next
  case (Cons k ks)
  have "length (filter (\<lambda>r. key r = Some k \<and> P r) df)
          + length (filter (\<lambda>r. (\<exists>k \<in> set ks. key r = Some k) \<and> P r) df)
        = length (filter (\<lambda>r. (key r = Some k \<and> P r)
                               \<or> ((\<exists>k \<in> set ks. key r = Some k) \<and> P r)) df)"
    using Cons.prems by (intro length_filter_disjoint) auto
  also have "\<dots> = length (filter (\<lambda>r. (\<exists>k' \<in> set (k # ks). key r = Some k') \<and> P r) df)"
    by (rule arg_cong [where f = length], rule filter_cong) auto
  finally show ?case using Cons by simp
qed

lemma sum_resumo_nucleo:
  "sum_list (map snd (resumo_nucleo df))
     = length (filter (\<lambda>r. nucleo_de_atuacao r \<noteq> None \<and> notna (ocorrencia_cadastro r)) df)"
proof -
  have "sum_list (map snd (resumo_nucleo df))
      = length (filter (\<lambda>r. (\<exists>k \<in> set (group_keys (map nucleo_de_atuacao df)).
                                  nucleo_de_atuacao r = Some k)
                             \<and> notna (ocorrencia_cadastro r)) df)"
    using sum_group_counts [where ks = "group_keys (map nucleo_de_atuacao df)"
        and key = nucleo_de_atuacao and P = "\<lambda>r. notna (ocorrencia_cadastro r)" and df = df,
        OF distinct_group_keys]
    by (simp add: resumo_nucleo_def comp_def)
  also have "\<dots> = length (filter (\<lambda>r. nucleo_de_atuacao r \<noteq> None
                                       \<and> notna (ocorrencia_cadastro r)) df)"
    by (rule arg_cong [where f = length], rule filter_cong)
       (auto simp: set_group_keys image_iff, metis)
  finally show ?thesis .
qed

text \<open>
  C3, as amended. The values of the category summary add up to the number of rows that
  have a category and a non-missing occurrence field (\<^verbatim>\<open>count()\<close> leaves out the rows
  whose counted cell is missing), which can be less than the number of rows with a
  category.
\<close>

theorem resumo_nucleo_total:
  "sum_list (map snd (resumo_nucleo (dropna_nucleo df)))
     = length (filter (\<lambda>r. nucleo_de_atuacao r \<noteq> None \<and> notna (ocorrencia_cadastro r)) df)"
  by (simp add: sum_resumo_nucleo dropna_nucleo_def conj_commute conj_left_commute)

theorem resumo_nucleo_total_witness:
  "sum_list (map snd (resumo_nucleo (dropna_nucleo scenario))) = 3"
  using resumo_nucleo_total [of scenario]
  by (simp add: scenario_def sample_row_def notna_def)

theorem category_total_counterexample:
  "sum_list (map snd (resumo_nucleo (dropna_nucleo unregistered_row))) = 0
   \<and> length (filter (\<lambda>r. nucleo_de_atuacao r \<noteq> None) unregistered_row) = 1"
  by (simp add: resumo_nucleo_def group_keys_def dropna_nucleo_def unregistered_row_def
      sample_row_def notna_def)

text \<open>
  C4. Every entry of the category summary pairs a category with the number of rows that
  have this category and a non-missing occurrence field; each category of the table has
  exactly one entry.
\<close>

theorem resumo_nucleo_counts:
  "(\<forall>(k, n) \<in> set (resumo_nucleo (dropna_nucleo df)).
       n = length (filter (\<lambda>r. nucleo_de_atuacao r = Some k
                              \<and> notna (ocorrencia_cadastro r)) df))
   \<and> distinct (map fst (resumo_nucleo (dropna_nucleo df)))
   \<and> set (map fst (resumo_nucleo (dropna_nucleo df)))
       = {k. \<exists>r \<in> set df. nucleo_de_atuacao r = Some k}"
proof (intro conjI)
  have "\<And>k. filter (\<lambda>r. nucleo_de_atuacao r = Some k \<and> notna (ocorrencia_cadastro r))
              (dropna_nucleo df)
            = filter (\<lambda>r. nucleo_de_atuacao r = Some k \<and> notna (ocorrencia_cadastro r)) df"
    unfolding dropna_nucleo_def filter_filter by (rule filter_cong) auto
  then show "\<forall>(k, n) \<in> set (resumo_nucleo (dropna_nucleo df)).
       n = length (filter (\<lambda>r. nucleo_de_atuacao r = Some k
                              \<and> notna (ocorrencia_cadastro r)) df)"
    by (auto simp: resumo_nucleo_def)
next
  show "distinct (map fst (resumo_nucleo (dropna_nucleo df)))"
    by (simp add: keys_resumo_nucleo distinct_group_keys)
next
  show "set (map fst (resumo_nucleo (dropna_nucleo df)))
       = {k. \<exists>r \<in> set df. nucleo_de_atuacao r = Some k}"
    unfolding keys_resumo_nucleo set_group_keys
    by (force simp: dropna_nucleo_def image_iff)
qed

theorem resumo_nucleo_counts_witness:
  "resumo_nucleo (dropna_nucleo scenario) = [(''A'', 2), (''B'', 1)]
   \<and> length (filter (\<lambda>r. nucleo_de_atuacao r = Some ''A'' \<and> notna (ocorrencia_cadastro r))
        scenario) = 2"
proof -
  have r: "resumo_nucleo (dropna_nucleo scenario) = [(''A'', 2), (''B'', 1)]"
    by (simp add: resumo_nucleo_def group_keys_def dropna_nucleo_def scenario_def
        sample_row_def notna_def)
  from resumo_nucleo_counts [of scenario] show ?thesis
    unfolding r by simp
qed


































end
